theory Spec2Isabelle
  imports Complex_Main "HOL-Library.Log_Nat"
begin

section \<open>Dynamic pricing of perishable goods: the pricing decision engine\<close>

text \<open>
  A shallow embedding of \<^verbatim>\<open>ml-service/main.py\<close> and of
  \<^verbatim>\<open>ml-service/training/train_model.py\<close>. Python floats are idealised as
  \<^typ>\<open>real\<close>, Python ints as \<^typ>\<open>int\<close>, strings as \<^typ>\<open>string\<close>; the
  calculator is given a second time in IEEE double arithmetic, for the property that
  rounding decides.
  Exceptions are values of \<open>py_error\<close>; a function that may raise returns
  \<open>py_error + 'a\<close> with \<open>Inl\<close> the raised exception.
\<close>

subsection \<open>Data model\<close>

record product_data =
  current_price :: real
  days_to_expiry :: int
  stock_level :: int
  demand_score :: real
  category :: string
  historical_sales :: real
  day_of_week :: string

record prediction_response =
  recommended_price :: real
  confidence :: "real option"
  factors :: "string list option"
  method_used :: string
  timestamp :: string

record batch_prediction_response =
  predictions :: "prediction_response list"
  total_processed :: int
  batch_timestamp :: string

datatype py_error =
    Exception string
  | IndexError string
  | KeyError string
  | UnboundLocalError string
  | HTTPException int string

subsection \<open>Python built-ins used by the code\<close>

text \<open>\<^verbatim>\<open>str.lower()\<close>, on the ASCII letters.\<close>

definition lower_char :: "char \<Rightarrow> char" where
  "lower_char c =
     (let n = (of_char c :: nat)
      in if 65 \<le> n \<and> n \<le> 90 then char_of (n + 32) else c)"

definition lower :: "string \<Rightarrow> string" where
  "lower s = map lower_char s"

text \<open>
  \<^verbatim>\<open>round(x, ndigits)\<close>: the nearest multiple of \<open>10 ^ -ndigits\<close>, a tie going
  to the even neighbour.
\<close>

definition round_half_even :: "real \<Rightarrow> int" where
  "round_half_even y =
     (let f = \<lfloor>y\<rfloor>; d = y - of_int f
      in if d < 1 / 2 then f
         else if 1 / 2 < d then f + 1
         else if even f then f else f + 1)"

definition py_round :: "real \<Rightarrow> nat \<Rightarrow> real" where
  "py_round x ndigits = of_int (round_half_even (x * 10 ^ ndigits)) / 10 ^ ndigits"

subsection \<open>Rule-based pricing calculator\<close>

text \<open>The five stages of \<^verbatim>\<open>calculate_rule_based_price\<close>, each an if/elif chain.\<close>

definition expiry_stage :: "int \<Rightarrow> real" where
  "expiry_stage d =
     (if d \<le> 0 then 0.05
      else if d \<le> 1 then 0.25
      else if d \<le> 2 then 0.45
      else if d \<le> 3 then 0.60
      else if d \<le> 5 then 0.75
      else if d \<le> 7 then 0.85
      else if d \<le> 14 then 0.95
      else if d \<le> 21 then 1.0
      else 1.05)"

definition demand_stage :: "real \<Rightarrow> real" where
  "demand_stage s =
     (if s < 0.1 then 0.75
      else if s < 0.3 then 0.85
      else if s < 0.5 then 0.95
      else if s < 0.7 then 1.0
      else if s < 0.8 then 1.08
      else if s < 0.9 then 1.15
      else 1.25)"

definition stock_stage :: "int \<Rightarrow> real" where
  "stock_stage n =
     (if n > 300 then 0.80
      else if n > 200 then 0.90
      else if n > 100 then 0.96
      else if n > 50 then 1.0
      else if n > 20 then 1.08
      else if n > 10 then 1.15
      else 1.30)"

text \<open>The sales-velocity chain has no final else: the multiplier is then unchanged.\<close>

definition sales_velocity_stage :: "real \<Rightarrow> real" where
  "sales_velocity_stage h =
     (if h < 5 then 0.85
      else if h < 20 then 0.92
      else if h > 50 then 1.05
      else if h > 100 then 1.10
      else if h > 200 then 1.15
      else 1)"

definition category_adjustments :: "(string \<times> real) list" where
  "category_adjustments =
     [(''meat'', 1.05), (''seafood'', 1.08), (''dairy'', 1.02), (''fruits'', 0.98),
      (''vegetables'', 0.96), (''bakery'', 0.95), (''other'', 1.0)]"

text \<open>\<^verbatim>\<open>category_adjustments.get(product_data.category.lower(), 1.0)\<close>\<close>

definition category_multiplier :: "string \<Rightarrow> real" where
  "category_multiplier c =
     (case map_of category_adjustments (lower c) of None \<Rightarrow> 1.0 | Some m \<Rightarrow> m)"

text \<open>
  The value of \<^verbatim>\<open>price_multiplier\<close> after stages 1 to 5, and after the
  bounds of step 6.
\<close>

definition staged_multiplier :: "product_data \<Rightarrow> real" where
  "staged_multiplier pd =
     (let price_multiplier = 1.0;
          price_multiplier = price_multiplier * expiry_stage (days_to_expiry pd);
          price_multiplier = price_multiplier * demand_stage (demand_score pd);
          price_multiplier = price_multiplier * stock_stage (stock_level pd);
          price_multiplier = price_multiplier * sales_velocity_stage (historical_sales pd);
          price_multiplier = price_multiplier * category_multiplier (category pd)
      in price_multiplier)"

definition bounded_multiplier :: "product_data \<Rightarrow> real" where
  "bounded_multiplier pd =
     (let price_multiplier = staged_multiplier pd;
          price_multiplier =
            (if days_to_expiry pd > 0 \<and> demand_score pd > 0.5
             then max price_multiplier 0.70 else price_multiplier);
          price_multiplier =
            (if stock_level pd > 5
             then min price_multiplier 1.35 else price_multiplier)
      in price_multiplier)"

definition calculate_rule_based_price :: "product_data \<Rightarrow> real" where
  "calculate_rule_based_price pd =
     (let base_price = current_price pd;
          final_price = base_price * bounded_multiplier pd;
          min_price = current_price pd * 0.05
      in max final_price min_price)"

subsection \<open>The calculator in double arithmetic\<close>

text \<open>
  A Python float is an IEEE 754 double: a finite value with a significand of 53 bits and
  an exponent from -1022 to 1023 (subnormal values are multiples of \<open>2 ^ -1074\<close>), an
  infinity or a NaN. An operation returns its exact result rounded to the nearest
  double, a tie going to the even significand, and an infinity when the rounded result
  reaches \<open>2 ^ 1024\<close>.

  \<open>round_scaled m\<close> rounds a non-negative \<open>m\<close>, counted in units of \<open>2 ^ -1074\<close>,
  to 53 significant bits: \<open>bitlen \<lfloor>m\<rfloor>\<close> is the number of bits of its integer part.
\<close>

definition round_scaled :: "real \<Rightarrow> real" where
  "round_scaled m =
     (let shift = nat (bitlen \<lfloor>m\<rfloor> - 53)
      in of_int (round_half_even (m / 2 ^ shift)) * 2 ^ shift)"

definition round_nonneg :: "real \<Rightarrow> real" where
  "round_nonneg x = round_scaled (x * 2 ^ 1074) / 2 ^ 1074"

definition round_double :: "real \<Rightarrow> real" where
  "round_double x = (if x < 0 then - round_nonneg (- x) else round_nonneg x)"

datatype double = Finite real | PosInf | NegInf | NaN

text \<open>The double that an operation with the exact result \<open>x\<close> returns.\<close>

definition f64 :: "real \<Rightarrow> double" where
  "f64 x =
     (let r = round_double x
      in if 2 ^ 1024 \<le> r then PosInf
         else if r \<le> - (2 ^ 1024) then NegInf
         else Finite r)"

text \<open>The double that a decimal literal of the source denotes.\<close>

definition lit :: "real \<Rightarrow> double" where
  "lit x = f64 x"

fun f64_mul :: "double \<Rightarrow> double \<Rightarrow> double" where
  "f64_mul (Finite a) (Finite b) = f64 (a * b)"
| "f64_mul NaN y = NaN"
| "f64_mul x NaN = NaN"
| "f64_mul (Finite a) PosInf = (if a = 0 then NaN else if 0 < a then PosInf else NegInf)"
| "f64_mul (Finite a) NegInf = (if a = 0 then NaN else if 0 < a then NegInf else PosInf)"
| "f64_mul PosInf (Finite b) = (if b = 0 then NaN else if 0 < b then PosInf else NegInf)"
| "f64_mul NegInf (Finite b) = (if b = 0 then NaN else if 0 < b then NegInf else PosInf)"
| "f64_mul PosInf PosInf = PosInf"
| "f64_mul PosInf NegInf = NegInf"
| "f64_mul NegInf PosInf = NegInf"
| "f64_mul NegInf NegInf = PosInf"

fun f64_less :: "double \<Rightarrow> double \<Rightarrow> bool" where
  "f64_less (Finite a) (Finite b) = (a < b)"
| "f64_less NaN y = False"
| "f64_less x NaN = False"
| "f64_less PosInf y = False"
| "f64_less x PosInf = True"
| "f64_less x NegInf = False"
| "f64_less NegInf y = True"

fun f64_le :: "double \<Rightarrow> double \<Rightarrow> bool" where
  "f64_le (Finite a) (Finite b) = (a \<le> b)"
| "f64_le NaN y = False"
| "f64_le x NaN = False"
| "f64_le x PosInf = True"
| "f64_le NegInf y = True"
| "f64_le PosInf y = False"
| "f64_le x NegInf = False"

text \<open>
  \<^verbatim>\<open>max(a, b)\<close> and \<^verbatim>\<open>min(a, b)\<close> of Python keep the first argument unless
  the second is greater, respectively smaller.
\<close>

definition f64_max :: "double \<Rightarrow> double \<Rightarrow> double" where
  "f64_max a b = (if f64_less a b then b else a)"

definition f64_min :: "double \<Rightarrow> double \<Rightarrow> double" where
  "f64_min a b = (if f64_less b a then b else a)"

text \<open>
  The stages in doubles. The expiry, stock and category stages multiply by the double of
  the literal that the chain selects; the thresholds on the two integers are exact, as
  are the integer thresholds on the historical sales.
\<close>

definition expiry_stage_f64 :: "int \<Rightarrow> double" where
  "expiry_stage_f64 d = lit (expiry_stage d)"

definition demand_stage_f64 :: "double \<Rightarrow> double" where
  "demand_stage_f64 s =
     (if f64_less s (lit 0.1) then lit 0.75
      else if f64_less s (lit 0.3) then lit 0.85
      else if f64_less s (lit 0.5) then lit 0.95
      else if f64_less s (lit 0.7) then lit 1.0
      else if f64_less s (lit 0.8) then lit 1.08
      else if f64_less s (lit 0.9) then lit 1.15
      else lit 1.25)"

definition stock_stage_f64 :: "int \<Rightarrow> double" where
  "stock_stage_f64 n = lit (stock_stage n)"

definition sales_velocity_update_f64 :: "real \<Rightarrow> double \<Rightarrow> double" where
  "sales_velocity_update_f64 h price_multiplier =
     (if h < 5 then f64_mul price_multiplier (lit 0.85)
      else if h < 20 then f64_mul price_multiplier (lit 0.92)
      else if h > 50 then f64_mul price_multiplier (lit 1.05)
      else if h > 100 then f64_mul price_multiplier (lit 1.10)
      else if h > 200 then f64_mul price_multiplier (lit 1.15)
      else price_multiplier)"

definition category_multiplier_f64 :: "string \<Rightarrow> double" where
  "category_multiplier_f64 c = lit (category_multiplier c)"

definition staged_multiplier_f64 :: "product_data \<Rightarrow> double" where
  "staged_multiplier_f64 pd =
     (let price_multiplier = lit 1.0;
          price_multiplier = f64_mul price_multiplier (expiry_stage_f64 (days_to_expiry pd));
          price_multiplier =
            f64_mul price_multiplier (demand_stage_f64 (Finite (demand_score pd)));
          price_multiplier = f64_mul price_multiplier (stock_stage_f64 (stock_level pd));
          price_multiplier = sales_velocity_update_f64 (historical_sales pd) price_multiplier;
          price_multiplier =
            f64_mul price_multiplier (category_multiplier_f64 (category pd))
      in price_multiplier)"

definition bounded_multiplier_f64 :: "product_data \<Rightarrow> double" where
  "bounded_multiplier_f64 pd =
     (let price_multiplier = staged_multiplier_f64 pd;
          price_multiplier =
            (if days_to_expiry pd > 0 \<and> f64_less (lit 0.5) (Finite (demand_score pd))
             then f64_max price_multiplier (lit 0.70) else price_multiplier);
          price_multiplier =
            (if stock_level pd > 5
             then f64_min price_multiplier (lit 1.35) else price_multiplier)
      in price_multiplier)"

definition calculate_rule_based_price_f64 :: "product_data \<Rightarrow> double" where
  "calculate_rule_based_price_f64 pd =
     (let base_price = Finite (current_price pd);
          final_price = f64_mul base_price (bounded_multiplier_f64 pd);
          min_price = f64_mul (Finite (current_price pd)) (lit 0.05)
      in f64_max final_price min_price)"

text \<open>
  The multiplier of the largest literal of every stage: 1.05, 1.25, 1.30, 1.05 (the
  largest that the sales-velocity chain reaches) and 1.08.
\<close>

definition largest_multiplier_f64 :: double where
  "largest_multiplier_f64 =
     f64_mul (f64_mul (f64_mul (f64_mul (f64_mul (lit 1.0) (lit 1.05)) (lit 1.25))
       (lit 1.30)) (lit 1.05)) (lit 1.08)"

text \<open>A double that is finite, not negative and at most \<open>b\<close>.\<close>

definition at_most :: "double \<Rightarrow> real \<Rightarrow> bool" where
  "at_most x b = (case x of Finite a \<Rightarrow> 0 \<le> a \<and> a \<le> b | PosInf \<Rightarrow> False
                 | NegInf \<Rightarrow> False | NaN \<Rightarrow> False)"

subsection \<open>Collaborators and process-wide state\<close>

text \<open>
  The model and the preprocessor are external collaborators (an XGBoost regressor and a
  scikit-learn pipeline). A call answers \<open>Inr\<close> its result, or \<open>Inl msg\<close> when it
  raises an exception \<open>e\<close> with \<^verbatim>\<open>str(e) = msg\<close>. The globals
  \<^verbatim>\<open>model\<close> and \<^verbatim>\<open>preprocessor\<close> are \<open>None\<close> until loaded.
\<close>

type_synonym data_frame = "product_data list"
type_synonym ndarray = "real list list"

record service =
  model :: "(ndarray \<Rightarrow> string + real list) option"
  preprocessor :: "(data_frame \<Rightarrow> string + ndarray) option"

subsection \<open>Preprocessing\<close>

definition categories :: "string list" where
  "categories = [''bakery'', ''dairy'', ''fruits'', ''meat'', ''other'', ''seafood'', ''vegetables'']"

definition days :: "string list" where
  "days = [''friday'', ''monday'', ''saturday'', ''sunday'', ''thursday'', ''tuesday'', ''wednesday'']"

definition manual_preprocessing :: "data_frame \<Rightarrow> ndarray" where
  "manual_preprocessing data =
     map (\<lambda>row.
            [current_price row, of_int (days_to_expiry row), of_int (stock_level row),
             demand_score row, historical_sales row]
            @ map (\<lambda>cat. if category row = cat then 1 else 0) categories
            @ map (\<lambda>day. if day_of_week row = day then 1 else 0) days)
         data"

definition preprocess_data :: "service \<Rightarrow> product_data \<Rightarrow> py_error + ndarray" where
  "preprocess_data st pd =
     (let data = [pd\<lparr>category := lower (category pd),
                      day_of_week := lower (day_of_week pd)\<rparr>]
      in case (case preprocessor st of
                 Some transform \<Rightarrow> transform data
               | None \<Rightarrow> Inr (manual_preprocessing data)) of
           Inr processed_data \<Rightarrow> Inr processed_data
         | Inl e \<Rightarrow> Inl (HTTPException 400 (''Data preprocessing error: '' @ e)))"

subsection \<open>Factor explainer\<close>

text \<open>The five blocks of tags that \<^verbatim>\<open>predict_price\<close> appends, in order.\<close>

definition expiry_factors :: "product_data \<Rightarrow> string list" where
  "expiry_factors pd =
     (if days_to_expiry pd \<le> 0 then [''expired_clearance'']
      else if days_to_expiry pd \<le> 1 then [''critical_expiry'']
      else if days_to_expiry pd \<le> 3 then [''expiry_proximity'']
      else if days_to_expiry pd \<le> 7 then [''short_shelf_life'']
      else [])"

definition stock_factors :: "product_data \<Rightarrow> string list" where
  "stock_factors pd =
     (if stock_level pd > 200 then [''excess_inventory'']
      else if stock_level pd > 100 then [''high_stock'']
      else if stock_level pd < 20 then [''low_stock'']
      else if stock_level pd < 10 then [''critical_stock'']
      else [])"

definition demand_factors :: "product_data \<Rightarrow> string list" where
  "demand_factors pd =
     (if demand_score pd < 0.2 then [''low_demand'']
      else if demand_score pd > 0.8 then [''high_demand'']
      else if demand_score pd > 0.9 then [''peak_demand'']
      else [])"

definition sales_factors :: "product_data \<Rightarrow> string list" where
  "sales_factors pd =
     (if historical_sales pd < 10 then [''slow_moving'']
      else if historical_sales pd > 100 then [''fast_moving'']
      else [])"

definition combined_factors :: "product_data \<Rightarrow> string list" where
  "combined_factors pd =
     (if days_to_expiry pd \<le> 3 \<and> stock_level pd > 100
      then [''urgent_clearance_needed''] else [])
     @ (if stock_level pd < 20 \<and> demand_score pd > 0.7
        then [''scarcity_premium''] else [])"

definition explain_factors :: "product_data \<Rightarrow> string list" where
  "explain_factors pd =
     expiry_factors pd @ stock_factors pd @ demand_factors pd @ sales_factors pd
     @ combined_factors pd"

subsection \<open>Prediction orchestrator\<close>

text \<open>
  \<open>now\<close> is the reading of \<^verbatim>\<open>datetime.now().isoformat()\<close> at response assembly.
  \<open>predict_price_try\<close> is the body of the try block, \<open>predict_price\<close> adds the
  handler \<^verbatim>\<open>except Exception\<close>.
\<close>

definition rule_based_response :: "string \<Rightarrow> product_data \<Rightarrow> prediction_response" where
  "rule_based_response now pd =
     (let recommended = calculate_rule_based_price pd
      in \<lparr>recommended_price = py_round recommended 2,
          confidence = Some 0.6,
          factors = Some [''rule_based_fallback''],
          method_used = ''rule_based'',
          timestamp = now\<rparr>)"

definition error_fallback_response :: "string \<Rightarrow> product_data \<Rightarrow> prediction_response" where
  "error_fallback_response now pd =
     (let recommended = calculate_rule_based_price pd
      in \<lparr>recommended_price = py_round recommended 2,
          confidence = Some 0.5,
          factors = Some [''error_fallback''],
          method_used = ''rule_based_fallback'',
          timestamp = now\<rparr>)"

definition ml_model_response :: "string \<Rightarrow> product_data \<Rightarrow> real \<Rightarrow> prediction_response" where
  "ml_model_response now pd prediction =
     (let min_price = current_price pd * 0.1;
          recommended = max prediction min_price;
          conf = min 0.95 (max 0.6
                   (1.0 - \<bar>prediction - current_price pd\<bar> / current_price pd))
      in \<lparr>recommended_price = py_round recommended 2,
          confidence = Some (py_round conf 3),
          factors = Some (explain_factors pd),
          method_used = ''ml_model'',
          timestamp = now\<rparr>)"

definition predict_price_try ::
  "service \<Rightarrow> string \<Rightarrow> product_data \<Rightarrow> py_error + prediction_response" where
  "predict_price_try st now pd =
     (case model st of
        None \<Rightarrow> Inr (rule_based_response now pd)
      | Some m \<Rightarrow>
          (case preprocess_data st pd of
             Inl e \<Rightarrow> Inl e
           | Inr processed_data \<Rightarrow>
               (case m processed_data of
                  Inl e \<Rightarrow> Inl (Exception e)
                | Inr [] \<Rightarrow> Inl (IndexError ''index 0 is out of bounds'')
                | Inr (prediction # rest) \<Rightarrow> Inr (ml_model_response now pd prediction))))"

definition predict_price ::
  "service \<Rightarrow> string \<Rightarrow> product_data \<Rightarrow> py_error + prediction_response" where
  "predict_price st now pd =
     (case predict_price_try st now pd of
        Inr response \<Rightarrow> Inr response
      | Inl e \<Rightarrow> Inr (error_fallback_response now pd))"

subsection \<open>Batch orchestrator\<close>

text \<open>
  \<open>clock t\<close> is the \<open>t\<close>-th reading of the clock; the loop reads it once per product
  and \<^verbatim>\<open>batch_predict\<close> once more for the batch response. \<open>batch_item\<close> is
  the inner try block with its handler. No statement of the loop raises outside the
  inner try block, so the outer handler, which raises the 500 error, has no branch here.
\<close>

definition batch_error_fallback_response ::
  "string \<Rightarrow> product_data \<Rightarrow> prediction_response" where
  "batch_error_fallback_response now pd =
     (let fallback_price = calculate_rule_based_price pd
      in \<lparr>recommended_price = py_round fallback_price 2,
          confidence = Some 0.4,
          factors = Some [''batch_error_fallback''],
          method_used = ''rule_based_fallback'',
          timestamp = now\<rparr>)"

definition batch_item :: "service \<Rightarrow> string \<Rightarrow> product_data \<Rightarrow> prediction_response" where
  "batch_item st now pd =
     (case predict_price st now pd of
        Inr prediction \<Rightarrow> prediction
      | Inl e \<Rightarrow> batch_error_fallback_response now pd)"

fun batch_loop ::
  "service \<Rightarrow> (nat \<Rightarrow> string) \<Rightarrow> nat \<Rightarrow> product_data list \<Rightarrow> prediction_response list
     \<Rightarrow> prediction_response list \<times> nat" where
  "batch_loop st clock t [] acc = (acc, t)"
| "batch_loop st clock t (pd # products) acc =
     batch_loop st clock (Suc t) products (acc @ [batch_item st (clock t) pd])"

definition batch_predict ::
  "service \<Rightarrow> (nat \<Rightarrow> string) \<Rightarrow> product_data list \<Rightarrow> py_error + batch_prediction_response" where
  "batch_predict st clock products =
     (case batch_loop st clock 0 products [] of
        (preds, t) \<Rightarrow>
          Inr \<lparr>predictions = preds,
               total_processed = int (length preds),
               batch_timestamp = clock t\<rparr>)"

subsection \<open>Synthetic label generator\<close>

text \<open>
  The random source is the sequence of raw draws of \<^verbatim>\<open>np.random\<close> together
  with the position of the next one. \<^verbatim>\<open>np.random.uniform(low, high)\<close> scales a
  draw of the unit interval, \<^verbatim>\<open>np.random.normal(loc, scale)\<close> a standard normal
  one.
\<close>

type_synonym rng = "(nat \<Rightarrow> real) \<times> nat"

definition random_uniform :: "real \<Rightarrow> real \<Rightarrow> rng \<Rightarrow> real \<times> rng" where
  "random_uniform low high g =
     (case g of (draws, i) \<Rightarrow> (low + (high - low) * draws i, (draws, Suc i)))"

definition random_normal :: "real \<Rightarrow> real \<Rightarrow> rng \<Rightarrow> real \<times> rng" where
  "random_normal loc scale g =
     (case g of (draws, i) \<Rightarrow> (loc + scale * draws i, (draws, Suc i)))"

text \<open>\<^verbatim>\<open>price_multiplier *= np.random.uniform(low, high)\<close>\<close>

definition times_uniform :: "real \<Rightarrow> real \<Rightarrow> real \<times> rng \<Rightarrow> real \<times> rng" where
  "times_uniform low high s =
     (case s of (price_multiplier, g) \<Rightarrow>
        (case random_uniform low high g of (u, g') \<Rightarrow> (price_multiplier * u, g')))"

definition target_expiry_stage :: "int \<Rightarrow> real \<times> rng \<Rightarrow> real \<times> rng" where
  "target_expiry_stage d s =
     (if d \<le> 0 then times_uniform 0.05 0.15 s
      else if d \<le> 1 then times_uniform 0.20 0.40 s
      else if d \<le> 2 then times_uniform 0.40 0.60 s
      else if d \<le> 3 then times_uniform 0.55 0.75 s
      else if d \<le> 5 then times_uniform 0.75 0.90 s
      else if d \<le> 7 then times_uniform 0.88 0.98 s
      else if d \<le> 14 then times_uniform 0.95 1.05 s
      else if d \<le> 21 then times_uniform 0.98 1.10 s
      else times_uniform 1.00 1.15 s)"

definition target_demand_stage :: "real \<Rightarrow> real \<times> rng \<Rightarrow> real \<times> rng" where
  "target_demand_stage x s =
     (if x < 0.1 then times_uniform 0.70 0.85 s
      else if x < 0.3 then times_uniform 0.80 0.95 s
      else if x < 0.5 then times_uniform 0.90 1.00 s
      else if x < 0.7 then times_uniform 0.95 1.05 s
      else if x < 0.8 then times_uniform 1.02 1.12 s
      else if x < 0.9 then times_uniform 1.08 1.20 s
      else times_uniform 1.15 1.35 s)"

definition target_stock_stage :: "int \<Rightarrow> real \<times> rng \<Rightarrow> real \<times> rng" where
  "target_stock_stage n s =
     (if n > 300 then times_uniform 0.75 0.90 s
      else if n > 200 then times_uniform 0.85 0.95 s
      else if n > 100 then times_uniform 0.92 1.02 s
      else if n > 50 then times_uniform 0.98 1.05 s
      else if n > 20 then times_uniform 1.05 1.15 s
      else if n > 10 then times_uniform 1.12 1.25 s
      else times_uniform 1.20 1.50 s)"

definition target_sales_stage :: "real \<Rightarrow> real \<times> rng \<Rightarrow> real \<times> rng" where
  "target_sales_stage h s =
     (if h < 5 then times_uniform 0.80 0.92 s
      else if h < 20 then times_uniform 0.90 0.98 s
      else if h > 50 then times_uniform 1.02 1.08 s
      else if h > 100 then times_uniform 1.05 1.15 s
      else if h > 200 then times_uniform 1.10 1.25 s
      else s)"

text \<open>
  The local variable \<^verbatim>\<open>price\<close> is \<open>None\<close> while no assignment has bound it.
  An augmented assignment \<^verbatim>\<open>price *= e\<close> reads \<^verbatim>\<open>price\<close> before it
  evaluates \<open>e\<close>, and raises \<^verbatim>\<open>UnboundLocalError\<close> when it is unbound.
\<close>

definition load_price :: "real option \<Rightarrow> py_error + real" where
  "load_price price =
     (case price of
        None \<Rightarrow> Inl (UnboundLocalError ''price'')
      | Some p \<Rightarrow> Inr p)"

definition price_times_uniform ::
  "real \<Rightarrow> real \<Rightarrow> real option \<times> rng \<Rightarrow> py_error + real option \<times> rng" where
  "price_times_uniform low high s =
     (case s of (price, g) \<Rightarrow>
        (case load_price price of
           Inl e \<Rightarrow> Inl e
         | Inr p \<Rightarrow> (case random_uniform low high g of (u, g') \<Rightarrow> Inr (Some (p * u), g'))))"

definition historical_sales_influence ::
  "real \<Rightarrow> real option \<times> rng \<Rightarrow> py_error + real option \<times> rng" where
  "historical_sales_influence h s =
     (if h < 20 then price_times_uniform 0.9 0.95 s
      else if h > 100 then price_times_uniform 1.0 1.05 s
      else Inr s)"

text \<open>The dictionary literal draws its seven values in the order they are written.\<close>

definition category_multipliers :: "rng \<Rightarrow> (string \<times> real) list \<times> rng" where
  "category_multipliers g0 =
     (case random_uniform 0.95 1.0 g0 of (dairy, g1) \<Rightarrow>
      case random_uniform 0.98 1.02 g1 of (meat, g2) \<Rightarrow>
      case random_uniform 0.9 0.95 g2 of (vegetables, g3) \<Rightarrow>
      case random_uniform 0.9 0.95 g3 of (fruits, g4) \<Rightarrow>
      case random_uniform 0.85 0.95 g4 of (bakery, g5) \<Rightarrow>
      case random_uniform 1.0 1.05 g5 of (seafood, g6) \<Rightarrow>
      case random_uniform 0.95 1.0 g6 of (other, g7) \<Rightarrow>
        ([(''dairy'', dairy), (''meat'', meat), (''vegetables'', vegetables),
          (''fruits'', fruits), (''bakery'', bakery), (''seafood'', seafood),
          (''other'', other)], g7))"

definition category_adjustment ::
  "string \<Rightarrow> real option \<times> rng \<Rightarrow> py_error + real option \<times> rng" where
  "category_adjustment cat s =
     (case s of (price, g) \<Rightarrow>
        (case category_multipliers g of (table, g') \<Rightarrow>
           (case load_price price of
              Inl e \<Rightarrow> Inl e
            | Inr p \<Rightarrow>
                (case map_of table cat of
                   None \<Rightarrow> Inl (KeyError cat)
                 | Some m \<Rightarrow> Inr (Some (p * m), g')))))"

definition day_of_week_effect ::
  "string \<Rightarrow> real option \<times> rng \<Rightarrow> py_error + real option \<times> rng" where
  "day_of_week_effect dow s =
     (if dow \<in> set [''saturday'', ''sunday''] then price_times_uniform 1.0 1.05 s
      else if dow = ''monday'' then price_times_uniform 0.95 1.0 s
      else Inr s)"

definition floor_noise_round ::
  "real \<Rightarrow> real option \<times> rng \<Rightarrow> py_error + real \<times> rng" where
  "floor_noise_round original_price s =
     (case s of (price, g) \<Rightarrow>
        (let min_price = original_price * 0.05
         in case load_price price of
              Inl e \<Rightarrow> Inl e
            | Inr p \<Rightarrow>
                (let p = max p min_price
                 in case random_normal 1 0.02 g of (noise, g') \<Rightarrow>
                      Inr (py_round (p * noise) 2, g'))))"

text \<open>
  \<^verbatim>\<open>calculate_target_price\<close>: the four multiplier stages, then the statements on
  \<^verbatim>\<open>price\<close>, which no statement of the function binds before its first use. The
  value \<^verbatim>\<open>stock_ratio\<close> is computed and never used.
\<close>

definition calculate_target_price ::
  "rng \<Rightarrow> real \<Rightarrow> int \<Rightarrow> int \<Rightarrow> real \<Rightarrow> string \<Rightarrow> real \<Rightarrow> string \<Rightarrow> py_error + real \<times> rng" where
  "calculate_target_price g original_price expiry stock demand cat sales dow =
     (let s = (1.0, g);
          s = target_expiry_stage expiry s;
          s = target_demand_stage demand s;
          stock_ratio = min (of_int stock / 100) (5.0 :: real);
          s = target_stock_stage stock s;
          s = target_sales_stage sales s;
          price = (None :: real option)
      in case historical_sales_influence sales (price, snd s) of
           Inl e \<Rightarrow> Inl e
         | Inr s1 \<Rightarrow>
             (case category_adjustment cat s1 of
                Inl e \<Rightarrow> Inl e
              | Inr s2 \<Rightarrow>
                  (case day_of_week_effect dow s2 of
                     Inl e \<Rightarrow> Inl e
                   | Inr s3 \<Rightarrow> floor_noise_round original_price s3)))"

subsection \<open>Concrete snapshots and services\<close>

text \<open>
  The snapshot of the specification's scenario (the day of the week at its default), two
  very fresh, high-demand seafood snapshots, one scarce and one not, and services whose
  collaborators are absent, failing or constant.
\<close>

definition scenario :: product_data where
  "scenario =
     \<lparr>current_price = 10.00, days_to_expiry = 0, stock_level = 50, demand_score = 0.5,
      category = ''dairy'', historical_sales = 10, day_of_week = ''monday''\<rparr>"

definition peak_premium :: product_data where
  "peak_premium =
     \<lparr>current_price = 20, days_to_expiry = 30, stock_level = 3, demand_score = 1,
      category = ''seafood'', historical_sales = 60, day_of_week = ''friday''\<rparr>"

definition capped_premium :: product_data where
  "capped_premium =
     \<lparr>current_price = 20, days_to_expiry = 30, stock_level = 8, demand_score = 0.95,
      category = ''seafood'', historical_sales = 60, day_of_week = ''friday''\<rparr>"

definition no_model_service :: service where
  "no_model_service = \<lparr>model = None, preprocessor = None\<rparr>"

definition failing_model_service :: service where
  "failing_model_service =
     \<lparr>model = Some (\<lambda>x. Inl ''inference failed''), preprocessor = None\<rparr>"

definition failing_preprocessor_service :: service where
  "failing_preprocessor_service =
     \<lparr>model = Some (\<lambda>x. Inr [8.0]), preprocessor = Some (\<lambda>data. Inl ''bad input'')\<rparr>"

section \<open>Properties\<close>

subsection \<open>Evaluation of the concrete snapshots\<close>

lemma lower_dairy: "lower ''dairy'' = ''dairy''"
  by (simp add: lower_def lower_char_def)

lemma lower_seafood: "lower ''seafood'' = ''seafood''"
  by (simp add: lower_def lower_char_def)

lemma lower_monday: "lower ''monday'' = ''monday''"
  by (simp add: lower_def lower_char_def)

lemma category_multiplier_dairy: "category_multiplier ''dairy'' = 1.02"
  by (simp add: category_multiplier_def category_adjustments_def lower_dairy)

lemma category_multiplier_seafood: "category_multiplier ''seafood'' = 1.08"
  by (simp add: category_multiplier_def category_adjustments_def lower_seafood)

lemma scenario_price: "calculate_rule_based_price scenario = 0.506736"
  by (simp add: calculate_rule_based_price_def bounded_multiplier_def staged_multiplier_def
      scenario_def expiry_stage_def demand_stage_def stock_stage_def sales_velocity_stage_def
      category_multiplier_dairy Let_def)

lemma scenario_rounded: "py_round (calculate_rule_based_price scenario) 2 = 0.51"
  by (simp add: scenario_price py_round_def round_half_even_def Let_def)

subsection \<open>The calculator's floor and ceilings\<close>

text \<open>
  C1: for every snapshot the calculator's price is at least 0.05 times the current
  price.
\<close>

theorem calculate_rule_based_price_floor:
  "0.05 * current_price pd \<le> calculate_rule_based_price pd"
  by (simp add: calculate_rule_based_price_def Let_def)

text \<open>
  Every stage multiplies by a positive factor that has a largest value; in exact
  arithmetic their product is 1.9348875.
\<close>

lemma expiry_stage_bounds: "0 < expiry_stage d \<and> expiry_stage d \<le> 1.05"
  by (simp add: expiry_stage_def)

lemma demand_stage_bounds: "0 < demand_stage s \<and> demand_stage s \<le> 1.25"
  by (simp add: demand_stage_def)

lemma stock_stage_bounds: "0 < stock_stage n \<and> stock_stage n \<le> 1.30"
  by (simp add: stock_stage_def)

lemma sales_velocity_stage_bounds:
  "0 < sales_velocity_stage h \<and> sales_velocity_stage h \<le> 1.05"
  by (simp add: sales_velocity_stage_def)

lemma category_multiplier_bounds:
  "0 < category_multiplier c \<and> category_multiplier c \<le> 1.08"
  by (simp add: category_multiplier_def category_adjustments_def)

lemma staged_multiplier_upper: "staged_multiplier pd \<le> 1.9348875"
proof -
  let ?e = "expiry_stage (days_to_expiry pd)"
  let ?d = "demand_stage (demand_score pd)"
  let ?s = "stock_stage (stock_level pd)"
  let ?v = "sales_velocity_stage (historical_sales pd)"
  let ?c = "category_multiplier (category pd)"
  have e: "0 < ?e" "?e \<le> 1.05" using expiry_stage_bounds by simp_all
  have d: "0 < ?d" "?d \<le> 1.25" using demand_stage_bounds by simp_all
  have s: "0 < ?s" "?s \<le> 1.30" using stock_stage_bounds by simp_all
  have v: "0 < ?v" "?v \<le> 1.05" using sales_velocity_stage_bounds by simp_all
  have c: "0 < ?c" "?c \<le> 1.08" using category_multiplier_bounds by simp_all
  have two: "?e * ?d \<le> 1.05 * 1.25"
    by (rule mult_mono [OF e(2) d(2)]) (use d in simp_all)
  have three: "?e * ?d * ?s \<le> 1.05 * 1.25 * 1.30"
    by (rule mult_mono [OF two s(2)]) (use s in simp_all)
  have four: "?e * ?d * ?s * ?v \<le> 1.05 * 1.25 * 1.30 * 1.05"
    by (rule mult_mono [OF three v(2)]) (use v in simp_all)
  have five: "?e * ?d * ?s * ?v * ?c \<le> 1.05 * 1.25 * 1.30 * 1.05 * 1.08"
    by (rule mult_mono [OF four c(2)]) (use c in simp_all)
  have "staged_multiplier pd = ?e * ?d * ?s * ?v * ?c"
    by (simp add: staged_multiplier_def Let_def)
  with five show ?thesis by simp
qed

lemma bounded_multiplier_upper: "bounded_multiplier pd \<le> 1.9348875"
  using staged_multiplier_upper [of pd]
  by (simp add: bounded_multiplier_def Let_def min_def max_def)

lemma bounded_multiplier_ceiling: "5 < stock_level pd \<Longrightarrow> bounded_multiplier pd \<le> 1.35"
  by (simp add: bounded_multiplier_def Let_def)

text \<open>
  C6: for every snapshot with a stock level above 5 (and a positive current price) the
  multiplier after the bounds of step 6 is at most 1.35, and the calculator's price is at
  most 1.35 times the current price.
\<close>

theorem calculate_rule_based_price_ceiling:
  assumes "5 < stock_level pd" and "0 < current_price pd"
  shows "bounded_multiplier pd \<le> 1.35
    \<and> calculate_rule_based_price pd \<le> 1.35 * current_price pd"
proof -
  have b: "bounded_multiplier pd \<le> 1.35"
    using assms(1) by (rule bounded_multiplier_ceiling)
  have "current_price pd * bounded_multiplier pd \<le> current_price pd * 1.35"
    using assms(2) b by (intro mult_left_mono) simp_all
  moreover have "current_price pd * 0.05 \<le> current_price pd * 1.35"
    using assms(2) by simp
  ultimately have "calculate_rule_based_price pd \<le> 1.35 * current_price pd"
    by (simp add: calculate_rule_based_price_def Let_def mult.commute)
  with b show ?thesis by simp
qed

theorem calculate_rule_based_price_ceiling_witness:
  "5 < stock_level capped_premium \<and> 0 < current_price capped_premium
   \<and> bounded_multiplier capped_premium \<le> 1.35
   \<and> calculate_rule_based_price capped_premium \<le> 1.35 * current_price capped_premium"
proof -
  have h1: "5 < stock_level capped_premium" by (simp add: capped_premium_def)
  have h2: "0 < current_price capped_premium" by (simp add: capped_premium_def)
  show ?thesis
    using h1 h2 calculate_rule_based_price_ceiling [OF h1 h2] by simp
qed

subsection \<open>Rounding to the nearest double\<close>

text \<open>Rounding is monotone, and is computed in the binade of its argument.\<close>

lemma round_half_even_of_int: "round_half_even (of_int n) = n"
  by (simp add: round_half_even_def)

lemma round_half_even_bounds:
  "\<lfloor>y\<rfloor> \<le> round_half_even y \<and> round_half_even y \<le> \<lfloor>y\<rfloor> + 1"
  by (simp add: round_half_even_def Let_def)

lemma round_half_even_mono:
  assumes "x \<le> y"
  shows "round_half_even x \<le> round_half_even y"
proof (cases "\<lfloor>x\<rfloor> < \<lfloor>y\<rfloor>")
  case True
  with round_half_even_bounds [of x] round_half_even_bounds [of y] show ?thesis by linarith
next
  case False
  with assms have eq: "\<lfloor>x\<rfloor> = \<lfloor>y\<rfloor>" using floor_mono [of x y] by linarith
  with assms show ?thesis
    by (simp add: round_half_even_def Let_def)
qed

lemma round_half_even_le_int: "y \<le> of_int n \<Longrightarrow> round_half_even y \<le> n"
  using round_half_even_mono [of y "of_int n"] by (simp add: round_half_even_of_int)

lemma round_half_even_ge_int: "of_int n \<le> y \<Longrightarrow> n \<le> round_half_even y"
  using round_half_even_mono [of "of_int n" y] by (simp add: round_half_even_of_int)

lemma bitlen_mono: "a \<le> b \<Longrightarrow> bitlen a \<le> bitlen b"
  by (simp add: bitlen_def floorlog_mono)

lemma nat_int_add_numeral: "nat (int s + numeral n) = s + numeral n"
  by (simp add: nat_add_distrib)

lemma shift_upper:
  fixes m :: real
  assumes "0 \<le> m" and "s = nat (bitlen \<lfloor>m\<rfloor> - 53)"
  shows "m < 2 ^ (s + 53)"
proof -
  have "bitlen \<lfloor>m\<rfloor> \<le> int (s + 53)" using assms(2) by simp
  then have "\<lfloor>m\<rfloor> < 2 ^ (s + 53)"
    by (simp add: bitlen_le_iff_power nat_int_add_numeral)
  then have "\<lfloor>m\<rfloor> + 1 \<le> 2 ^ (s + 53)" by simp
  then have "of_int (\<lfloor>m\<rfloor> + 1) \<le> (of_int (2 ^ (s + 53)) :: real)"
    by (simp only: of_int_le_iff)
  then have "of_int \<lfloor>m\<rfloor> + 1 \<le> (2 ^ (s + 53) :: real)" by simp
  moreover have "m < of_int \<lfloor>m\<rfloor> + 1" by linarith
  ultimately show ?thesis by linarith
qed

lemma shift_lower:
  fixes m :: real
  assumes "s = nat (bitlen \<lfloor>m\<rfloor> - 53)" and "0 < s"
  shows "2 ^ (s + 52) \<le> m"
proof -
  have "int (s + 53) \<le> bitlen \<lfloor>m\<rfloor>" using assms by simp
  then have "2 ^ (nat (int (s + 53)) - 1) \<le> \<lfloor>m\<rfloor>"
    by (simp add: bitlen_ge_iff_power)
  then have "(2::int) ^ (s + 52) \<le> \<lfloor>m\<rfloor>"
    by (simp add: nat_int_add_numeral add.commute)
  then have "(of_int (2 ^ (s + 52)) :: real) \<le> of_int \<lfloor>m\<rfloor>"
    by (simp only: of_int_le_iff)
  then show ?thesis by (simp add: le_floor_iff)
qed

lemma shift_eq:
  fixes m :: real
  assumes "2 ^ (k + 52) \<le> m" and "m < 2 ^ (k + 53)"
  shows "nat (bitlen \<lfloor>m\<rfloor> - 53) = k"
proof -
  have lo: "(2::int) ^ (k + 52) \<le> \<lfloor>m\<rfloor>"
    using assms(1) by (simp add: le_floor_iff)
  have hi: "\<lfloor>m\<rfloor> < (2::int) ^ (k + 53)"
    using assms(2) by (simp add: floor_less_iff)
  have "bitlen \<lfloor>m\<rfloor> \<le> int (k + 53)"
    using hi by (simp add: bitlen_le_iff_power nat_int_add_numeral)
  moreover have "int (k + 53) \<le> bitlen \<lfloor>m\<rfloor>"
    using lo by (simp add: bitlen_ge_iff_power nat_int_add_numeral add.commute)
  ultimately show ?thesis by simp
qed

lemma round_scaled_binade:
  assumes "2 ^ (k + 52) \<le> m" and "m < 2 ^ (k + 53)"
  shows "round_scaled m = of_int (round_half_even (m / 2 ^ k)) * 2 ^ k"
  using shift_eq [OF assms] by (simp add: round_scaled_def Let_def)

lemma round_scaled_mono:
  assumes "0 \<le> x" and "x \<le> y"
  shows "round_scaled x \<le> round_scaled y"
proof -
  define s where "s = nat (bitlen \<lfloor>x\<rfloor> - 53)"
  define t where "t = nat (bitlen \<lfloor>y\<rfloor> - 53)"
  have st: "s \<le> t"
    using bitlen_mono [of "\<lfloor>x\<rfloor>" "\<lfloor>y\<rfloor>"] floor_mono [OF assms(2)]
    by (simp add: s_def t_def)
  have rx: "round_scaled x = of_int (round_half_even (x / 2 ^ s)) * 2 ^ s"
    by (simp add: round_scaled_def s_def Let_def)
  have ry: "round_scaled y = of_int (round_half_even (y / 2 ^ t)) * 2 ^ t"
    by (simp add: round_scaled_def t_def Let_def)
  show ?thesis
  proof (cases "s = t")
    case True
    have "x / 2 ^ t \<le> y / 2 ^ t" using assms(2) by (simp add: divide_right_mono)
    then have "round_half_even (x / 2 ^ t) \<le> round_half_even (y / 2 ^ t)"
      by (rule round_half_even_mono)
    then show ?thesis unfolding rx ry True by simp
  next
    case False
    with st have lt: "s < t" by simp
    then have tpos: "0 < t" by simp
    have "x < 2 ^ (s + 53)" using shift_upper [OF assms(1) s_def] .
    then have "x / 2 ^ s \<le> of_int (2 ^ 53)"
      by (simp add: power_add field_simps)
    then have "round_half_even (x / 2 ^ s) \<le> 2 ^ 53" by (rule round_half_even_le_int)
    then have "(of_int (round_half_even (x / 2 ^ s)) :: real) \<le> of_int (2 ^ 53)"
      by (simp only: of_int_le_iff)
    then have "of_int (round_half_even (x / 2 ^ s)) * 2 ^ s \<le> (2 ^ 53 * 2 ^ s :: real)"
      by simp
    then have up: "round_scaled x \<le> 2 ^ (s + 53)" by (simp add: rx power_add mult.commute)
    have "2 ^ (t + 52) \<le> y" using shift_lower [OF t_def tpos] .
    then have "of_int (2 ^ 52) \<le> y / 2 ^ t"
      by (simp add: power_add field_simps)
    then have "2 ^ 52 \<le> round_half_even (y / 2 ^ t)" by (rule round_half_even_ge_int)
    then have "(of_int (2 ^ 52) :: real) \<le> of_int (round_half_even (y / 2 ^ t))"
      by (simp only: of_int_le_iff)
    then have "(2 ^ 52 * 2 ^ t :: real) \<le> of_int (round_half_even (y / 2 ^ t)) * 2 ^ t"
      by simp
    then have low: "2 ^ (t + 52) \<le> round_scaled y" by (simp add: ry power_add mult.commute)
    have "s + 53 \<le> t + 52" using lt by simp
    then have "(2::real) ^ (s + 53) \<le> 2 ^ (t + 52)"
      by (rule power_increasing) simp
    with up low show ?thesis by linarith
  qed
qed

lemma round_nonneg_mono: "0 \<le> x \<Longrightarrow> x \<le> y \<Longrightarrow> round_nonneg x \<le> round_nonneg y"
  using round_scaled_mono [of "x * 2 ^ 1074" "y * 2 ^ 1074"]
  by (simp add: round_nonneg_def divide_right_mono)

lemma round_scaled_zero: "round_scaled 0 = 0"
  by (simp add: round_scaled_def round_half_even_def)

lemma round_nonneg_zero: "round_nonneg 0 = 0"
  by (simp add: round_nonneg_def round_scaled_zero)

lemma round_nonneg_nonneg: "0 \<le> x \<Longrightarrow> 0 \<le> round_nonneg x"
  using round_nonneg_mono [of 0 x] by (simp add: round_nonneg_zero)

lemma round_nonneg_binade:
  fixes e :: int
  assumes "- 1022 \<le> e" and "2 powi e \<le> x" and "x < 2 powi (e + 1)"
  shows "round_nonneg x = of_int (round_half_even (x * 2 powi (52 - e))) * 2 powi (e - 52)"
proof -
  define k where "k = nat (e + 1022)"
  have e: "e = int k - 1022" using assms(1) by (simp add: k_def)
  have p1: "(2::real) ^ (k + 52) = 2 powi e * 2 ^ 1074"
    by (simp add: e power_int_diff power_add)
  have p2: "(2::real) ^ (k + 53) = 2 powi (e + 1) * 2 ^ 1074"
    by (simp add: e power_int_diff power_int_add power_add)
  have lo: "2 ^ (k + 52) \<le> x * 2 ^ 1074" unfolding p1 using assms(2) by simp
  have hi: "x * 2 ^ 1074 < 2 ^ (k + 53)" unfolding p2 using assms(3) by simp
  have q1: "x * 2 ^ 1074 / 2 ^ k = x * 2 powi (52 - e)"
    by (simp add: e power_int_diff power_add field_simps)
  have q2: "(2::real) ^ k / 2 ^ 1074 = 2 powi (e - 52)"
    by (simp add: e power_int_diff power_add field_simps)
  show ?thesis
    unfolding round_nonneg_def round_scaled_binade [OF lo hi] q1
    using q2 by simp
qed

subsection \<open>Doubles of the literals and of the products\<close>

lemma round_unit:
  assumes "1 \<le> x" and "x < 2"
  shows "round_nonneg x = of_int (round_half_even (x * 2 ^ 52)) / 2 ^ 52"
  using round_nonneg_binade [of 0 x] assms by (simp add: power_int_minus field_simps)

lemma round_1: "round_nonneg 1 = 1"
  by (simp add: round_unit round_half_even_def Let_def)

lemma round_1024: "round_nonneg 1024 = 1024"
  using round_nonneg_binade [of 10 1024]
  by (simp add: power_int_minus round_half_even_def Let_def)

lemma round_105: "round_nonneg 1.05 = 4728779608739021 / 4503599627370496"
  by (simp add: round_unit round_half_even_def Let_def)

lemma round_125: "round_nonneg 1.25 = 5 / 4"
  by (simp add: round_unit round_half_even_def Let_def)

lemma round_130: "round_nonneg 1.30 = 5854679515581645 / 4503599627370496"
  by (simp add: round_unit round_half_even_def Let_def)

lemma round_108: "round_nonneg 1.08 = 607985949695017 / 562949953421312"
  by (simp add: round_unit round_half_even_def Let_def)

lemma round_half: "round_nonneg 0.5 = 1 / 2"
  using round_nonneg_binade [of "- 1" "0.5"]
  by (simp add: power_int_minus round_half_even_def Let_def)

lemma round_005: "round_nonneg 0.05 = 3602879701896397 / 72057594037927936"
  using round_nonneg_binade [of "- 5" "0.05"]
  by (simp add: power_int_minus round_half_even_def Let_def)

lemma round_19348875: "round_nonneg 1.9348875 = 8713958624003831 / 4503599627370496"
  by (simp add: round_unit round_half_even_def Let_def)

lemma product_2:
  "round_nonneg (4728779608739021 / 4503599627370496 * (5 / 4)) = 21 / 16"
  by (simp add: round_unit round_half_even_def Let_def)

lemma product_3:
  "round_nonneg (21 / 16 * (5854679515581645 / 4503599627370496))
     = 7684266864200909 / 4503599627370496"
  by (simp add: round_unit round_half_even_def Let_def)

lemma product_4:
  "round_nonneg (7684266864200909 / 4503599627370496 * (4728779608739021 / 4503599627370496))
     = 8068480207410955 / 4503599627370496"
  by (simp add: round_unit round_half_even_def Let_def)

lemma product_5:
  "round_nonneg (8068480207410955 / 4503599627370496 * (607985949695017 / 562949953421312))
     = 1089244828000479 / 562949953421312"
  by (simp add: round_unit round_half_even_def Let_def)

lemma product_price:
  "round_nonneg (20 * (1089244828000479 / 562949953421312))
     = 5446224140002395 / 140737488355328"
  using round_nonneg_binade [of 5 "20 * (1089244828000479 / 562949953421312)"]
  by (simp add: power_int_minus round_half_even_def Let_def)

lemma product_claimed:
  "round_nonneg (8713958624003831 / 4503599627370496 * 20)
     = 2723112070001197 / 70368744177664"
  using round_nonneg_binade [of 5 "8713958624003831 / 4503599627370496 * 20"]
  by (simp add: power_int_minus round_half_even_def Let_def)

lemma product_floor:
  "round_nonneg (20 * (3602879701896397 / 72057594037927936)) = 1"
  by (simp add: round_unit round_half_even_def Let_def)

subsection \<open>Operations on small doubles\<close>

lemma f64_small:
  assumes "0 \<le> x" and "x \<le> 1024"
  shows "f64 x = Finite (round_nonneg x)"
    and "0 \<le> round_nonneg x" and "round_nonneg x \<le> 1024"
proof -
  show nonneg: "0 \<le> round_nonneg x" using assms(1) by (rule round_nonneg_nonneg)
  show le: "round_nonneg x \<le> 1024"
    using round_nonneg_mono [OF assms] by (simp add: round_1024)
  have "round_nonneg x < 2 ^ 1024" using le by simp
  with nonneg assms(1) show "f64 x = Finite (round_nonneg x)"
    by (simp add: f64_def round_double_def Let_def)
qed

lemma f64_mono:
  assumes "0 \<le> x" and "x \<le> y"
  shows "f64_le (f64 x) (f64 y)"
proof -
  have y: "0 \<le> y" using assms by simp
  have rx: "0 \<le> round_nonneg x" using assms(1) by (rule round_nonneg_nonneg)
  have ry: "0 \<le> round_nonneg y" using y by (rule round_nonneg_nonneg)
  have le: "round_nonneg x \<le> round_nonneg y" using assms by (rule round_nonneg_mono)
  show ?thesis
    using assms(1) y rx ry le by (simp add: f64_def round_double_def Let_def)
qed

lemma at_most_lit:
  assumes "0 \<le> x" and "x \<le> b" and "b \<le> 1024"
  shows "at_most (lit x) (round_nonneg b)"
proof -
  have "x \<le> 1024" using assms by simp
  from f64_small [OF assms(1) this] round_nonneg_mono [OF assms(1,2)]
  show ?thesis by (simp add: lit_def at_most_def)
qed

lemma at_most_mul:
  assumes "at_most x a" and "at_most y b" and "a * b \<le> 1024"
  shows "at_most (f64_mul x y) (round_nonneg (a * b))"
proof -
  from assms(1) obtain u where x: "x = Finite u" and u: "0 \<le> u" "u \<le> a"
    by (auto simp: at_most_def split: double.splits)
  from assms(2) obtain v where y: "y = Finite v" and v: "0 \<le> v" "v \<le> b"
    by (auto simp: at_most_def split: double.splits)
  have nonneg: "0 \<le> u * v" using u v by simp
  have le: "u * v \<le> a * b" using u v by (intro mult_mono) simp_all
  then have "u * v \<le> 1024" using assms(3) by simp
  from f64_small [OF nonneg this] round_nonneg_mono [OF nonneg le]
  show ?thesis by (simp add: x y at_most_def)
qed

lemma at_most_weaken: "at_most x a \<Longrightarrow> a \<le> b \<Longrightarrow> at_most x b"
  by (auto simp: at_most_def split: double.splits)

lemma at_most_max: "at_most x b \<Longrightarrow> at_most y b \<Longrightarrow> at_most (f64_max x y) b"
  by (simp add: f64_max_def)

lemma at_most_min: "at_most x b \<Longrightarrow> at_most y b \<Longrightarrow> at_most (f64_min x y) b"
  by (simp add: f64_min_def)

lemma f64_le_max: "f64_le x z \<Longrightarrow> f64_le y z \<Longrightarrow> f64_le (f64_max x y) z"
  by (simp add: f64_max_def)

subsection \<open>The doubles of the literals and the largest multiplier\<close>

lemma lit_small: "0 \<le> x \<Longrightarrow> x \<le> 1024 \<Longrightarrow> lit x = Finite (round_nonneg x)"
  using f64_small(1) [of x] by (simp add: lit_def)

lemma f64_mul_small:
  "0 \<le> a \<Longrightarrow> 0 \<le> b \<Longrightarrow> a * b \<le> 1024 \<Longrightarrow>
     f64_mul (Finite a) (Finite b) = Finite (round_nonneg (a * b))"
  using f64_small(1) [of "a * b"] by simp

lemma round_one: "round_nonneg 1.0 = 1"
  by (simp add: round_unit round_half_even_def Let_def)

lemma product_1:
  "round_nonneg (1 * (4728779608739021 / 4503599627370496)) = 4728779608739021 / 4503599627370496"
  by (simp add: round_unit round_half_even_def Let_def)

lemma lit_one: "lit 1.0 = Finite (1)"
proof -
  have "lit 1.0 = Finite (round_nonneg 1.0)" by (rule lit_small) simp_all
  then show ?thesis by (simp only: round_one)
qed

lemma lit_105: "lit 1.05 = Finite (4728779608739021 / 4503599627370496)"
proof -
  have "lit 1.05 = Finite (round_nonneg 1.05)" by (rule lit_small) simp_all
  then show ?thesis by (simp only: round_105)
qed

lemma lit_125: "lit 1.25 = Finite (5 / 4)"
proof -
  have "lit 1.25 = Finite (round_nonneg 1.25)" by (rule lit_small) simp_all
  then show ?thesis by (simp only: round_125)
qed

lemma lit_130: "lit 1.30 = Finite (5854679515581645 / 4503599627370496)"
proof -
  have "lit 1.30 = Finite (round_nonneg 1.30)" by (rule lit_small) simp_all
  then show ?thesis by (simp only: round_130)
qed

lemma lit_108: "lit 1.08 = Finite (607985949695017 / 562949953421312)"
proof -
  have "lit 1.08 = Finite (round_nonneg 1.08)" by (rule lit_small) simp_all
  then show ?thesis by (simp only: round_108)
qed

lemma lit_half: "lit 0.5 = Finite (1 / 2)"
proof -
  have "lit 0.5 = Finite (round_nonneg 0.5)" by (rule lit_small) simp_all
  then show ?thesis by (simp only: round_half)
qed

lemma lit_005: "lit 0.05 = Finite (3602879701896397 / 72057594037927936)"
proof -
  have "lit 0.05 = Finite (round_nonneg 0.05)" by (rule lit_small) simp_all
  then show ?thesis by (simp only: round_005)
qed

lemma lit_19348875: "lit 1.9348875 = Finite (8713958624003831 / 4503599627370496)"
proof -
  have "lit 1.9348875 = Finite (round_nonneg 1.9348875)" by (rule lit_small) simp_all
  then show ?thesis by (simp only: round_19348875)
qed

lemma mul_1:
  "f64_mul (Finite (1)) (Finite (4728779608739021 / 4503599627370496)) = Finite (4728779608739021 / 4503599627370496)"
proof -
  have "f64_mul (Finite (1)) (Finite (4728779608739021 / 4503599627370496)) = Finite (round_nonneg (1 * (4728779608739021 / 4503599627370496)))"
    by (rule f64_mul_small) simp_all
  then show ?thesis by (simp only: product_1)
qed

lemma mul_2:
  "f64_mul (Finite (4728779608739021 / 4503599627370496)) (Finite (5 / 4)) = Finite (21 / 16)"
proof -
  have "f64_mul (Finite (4728779608739021 / 4503599627370496)) (Finite (5 / 4)) = Finite (round_nonneg (4728779608739021 / 4503599627370496 * (5 / 4)))"
    by (rule f64_mul_small) simp_all
  then show ?thesis by (simp only: product_2)
qed

lemma mul_3:
  "f64_mul (Finite (21 / 16)) (Finite (5854679515581645 / 4503599627370496)) = Finite (7684266864200909 / 4503599627370496)"
proof -
  have "f64_mul (Finite (21 / 16)) (Finite (5854679515581645 / 4503599627370496)) = Finite (round_nonneg (21 / 16 * (5854679515581645 / 4503599627370496)))"
    by (rule f64_mul_small) simp_all
  then show ?thesis by (simp only: product_3)
qed

lemma mul_4:
  "f64_mul (Finite (7684266864200909 / 4503599627370496)) (Finite (4728779608739021 / 4503599627370496)) = Finite (8068480207410955 / 4503599627370496)"
proof -
  have "f64_mul (Finite (7684266864200909 / 4503599627370496)) (Finite (4728779608739021 / 4503599627370496)) = Finite (round_nonneg (7684266864200909 / 4503599627370496 * (4728779608739021 / 4503599627370496)))"
    by (rule f64_mul_small) simp_all
  then show ?thesis by (simp only: product_4)
qed

lemma mul_5:
  "f64_mul (Finite (8068480207410955 / 4503599627370496)) (Finite (607985949695017 / 562949953421312)) = Finite (1089244828000479 / 562949953421312)"
proof -
  have "f64_mul (Finite (8068480207410955 / 4503599627370496)) (Finite (607985949695017 / 562949953421312)) = Finite (round_nonneg (8068480207410955 / 4503599627370496 * (607985949695017 / 562949953421312)))"
    by (rule f64_mul_small) simp_all
  then show ?thesis by (simp only: product_5)
qed

lemma largest_multiplier_f64_value:
  "largest_multiplier_f64 = Finite (1089244828000479 / 562949953421312)"
  by (simp only: largest_multiplier_f64_def lit_one lit_105 lit_125 lit_130 lit_108
      mul_1 mul_2 mul_3 mul_4 mul_5)

subsection \<open>Every stage is at most its largest literal\<close>

lemma expiry_stage_f64_at_most: "at_most (expiry_stage_f64 d) (4728779608739021 / 4503599627370496)"
proof -
  have "at_most (lit (expiry_stage d)) (round_nonneg 1.05)"
    by (rule at_most_lit) (simp_all add: expiry_stage_def)
  then show ?thesis by (simp only: expiry_stage_f64_def round_105)
qed

lemma lit_at_most_125: "0 \<le> x \<Longrightarrow> x \<le> 1.25 \<Longrightarrow> at_most (lit x) (5 / 4)"
  using at_most_lit [of x "1.25"] by (simp only: round_125) simp

lemma demand_stage_f64_at_most: "at_most (demand_stage_f64 s) (5 / 4)"
  by (simp add: demand_stage_f64_def lit_at_most_125)

lemma stock_stage_f64_at_most: "at_most (stock_stage_f64 n) (5854679515581645 / 4503599627370496)"
proof -
  have "at_most (lit (stock_stage n)) (round_nonneg 1.30)"
    by (rule at_most_lit) (simp_all add: stock_stage_def)
  then show ?thesis by (simp only: stock_stage_f64_def round_130)
qed

lemma category_multiplier_f64_at_most: "at_most (category_multiplier_f64 c) (607985949695017 / 562949953421312)"
proof -
  have "at_most (lit (category_multiplier c)) (round_nonneg 1.08)"
    by (rule at_most_lit) (simp_all add: category_multiplier_def category_adjustments_def)
  then show ?thesis by (simp only: category_multiplier_f64_def round_108)
qed

lemma lit_at_most_105: "0 \<le> x \<Longrightarrow> x \<le> 1.05 \<Longrightarrow> at_most (lit x) (4728779608739021 / 4503599627370496)"
  using at_most_lit [of x "1.05"] by (simp only: round_105) simp

lemma sales_velocity_update_f64_at_most:
  assumes "at_most m (7684266864200909 / 4503599627370496)"
  shows "at_most (sales_velocity_update_f64 h m) (8068480207410955 / 4503599627370496)"
proof -
  have mul: "at_most (f64_mul m (lit x)) (8068480207410955 / 4503599627370496)" if "0 \<le> x" "x \<le> 1.05" for x
  proof -
    have "at_most (f64_mul m (lit x)) (round_nonneg (7684266864200909 / 4503599627370496 * (4728779608739021 / 4503599627370496)))"
      by (rule at_most_mul [OF assms lit_at_most_105 [OF that]]) simp
    then show ?thesis by (simp only: product_4)
  qed
  have same: "at_most m (8068480207410955 / 4503599627370496)"
    by (rule at_most_weaken [OF assms]) simp
  show ?thesis
    by (simp add: sales_velocity_update_f64_def mul same)
qed

lemma staged_multiplier_f64_at_most: "at_most (staged_multiplier_f64 pd) (1089244828000479 / 562949953421312)"
proof -
  let ?m1 = "f64_mul (lit 1.0) (expiry_stage_f64 (days_to_expiry pd))"
  let ?m2 = "f64_mul ?m1 (demand_stage_f64 (Finite (demand_score pd)))"
  let ?m3 = "f64_mul ?m2 (stock_stage_f64 (stock_level pd))"
  let ?m4 = "sales_velocity_update_f64 (historical_sales pd) ?m3"
  let ?m5 = "f64_mul ?m4 (category_multiplier_f64 (category pd))"
  have "at_most (Finite 1) 1" by (simp add: at_most_def)
  then have one: "at_most (lit 1.0) 1" by (simp only: lit_one)
  have "at_most ?m1 (round_nonneg (1 * (4728779608739021 / 4503599627370496)))"
    by (rule at_most_mul [OF one expiry_stage_f64_at_most]) simp
  then have m1: "at_most ?m1 (4728779608739021 / 4503599627370496)" by (simp only: product_1)
  have "at_most ?m2 (round_nonneg (4728779608739021 / 4503599627370496 * (5 / 4)))"
    by (rule at_most_mul [OF m1 demand_stage_f64_at_most]) simp
  then have m2: "at_most ?m2 (21 / 16)" by (simp only: product_2)
  have "at_most ?m3 (round_nonneg (21 / 16 * (5854679515581645 / 4503599627370496)))"
    by (rule at_most_mul [OF m2 stock_stage_f64_at_most]) simp
  then have m3: "at_most ?m3 (7684266864200909 / 4503599627370496)" by (simp only: product_3)
  have m4: "at_most ?m4 (8068480207410955 / 4503599627370496)" using m3 by (rule sales_velocity_update_f64_at_most)
  have "at_most ?m5 (round_nonneg (8068480207410955 / 4503599627370496 * (607985949695017 / 562949953421312)))"
    by (rule at_most_mul [OF m4 category_multiplier_f64_at_most]) simp
  then have "at_most ?m5 (1089244828000479 / 562949953421312)" by (simp only: product_5)
  then show ?thesis by (simp add: staged_multiplier_f64_def Let_def)
qed

lemma lit_070_at_most: "at_most (lit 0.70) (1089244828000479 / 562949953421312)"
  by (rule at_most_weaken [OF lit_at_most_105]) simp_all

lemma lit_135_bounded: "at_most (lit 1.35) 1024"
  using at_most_lit [of "1.35" 1024] by (simp add: round_1024)

lemma at_most_min_left: "at_most x b \<Longrightarrow> at_most y c \<Longrightarrow> at_most (f64_min x y) b"
  by (auto simp: f64_min_def at_most_def split: double.splits)

lemma at_most_if_max:
  "at_most x b \<Longrightarrow> at_most y b \<Longrightarrow> at_most (if c then f64_max x y else x) b"
  by (simp add: at_most_max)

lemma at_most_if_min:
  "at_most x b \<Longrightarrow> at_most y d \<Longrightarrow> at_most (if c then f64_min x y else x) b"
  by (simp add: at_most_min_left)

lemma bounded_multiplier_f64_at_most: "at_most (bounded_multiplier_f64 pd) (1089244828000479 / 562949953421312)"
  unfolding bounded_multiplier_f64_def Let_def
  by (intro at_most_if_min [OF _ lit_135_bounded] at_most_if_max
      staged_multiplier_f64_at_most lit_070_at_most)

lemma f64_mul_mono:
  assumes "0 < base" and "at_most m b"
  shows "f64_le (f64_mul (Finite base) m) (f64_mul (Finite base) (Finite b))"
proof -
  from assms(2) obtain u where m: "m = Finite u" and u: "0 \<le> u" "u \<le> b"
    by (auto simp: at_most_def split: double.splits)
  have "0 \<le> base * u" using assms(1) u by simp
  moreover have "base * u \<le> base * b" using assms(1) u by simp
  ultimately have "f64_le (f64 (base * u)) (f64 (base * b))" by (rule f64_mono)
  then show ?thesis by (simp add: m)
qed

lemma lit_005_at_most: "at_most (lit 0.05) (1089244828000479 / 562949953421312)"
  by (rule at_most_weaken [OF lit_at_most_105]) simp_all

text \<open>
  C10, as amended: for every snapshot with a positive current price, also one with a
  stock level of 5 or less, the price that the calculator computes in double arithmetic
  is at most the double product of the current price and \<open>M\<close>, where \<open>M\<close> is the
  double that the code's product 1.0 * 1.05 * 1.25 * 1.30 * 1.05 * 1.08 of the largest
  reachable stage multipliers evaluates to: 1089244828000479 / 2 ^ 49, printed
  1.9348875000000003, above 1.9348875 by less than 4e-16.
\<close>

theorem calculate_rule_based_price_f64_upper:
  assumes "0 < current_price pd"
  shows "f64_le (calculate_rule_based_price_f64 pd)
           (f64_mul (Finite (current_price pd)) largest_multiplier_f64)
    \<and> largest_multiplier_f64 = Finite (1089244828000479 / 562949953421312)
    \<and> (1.9348875 :: real) < 1089244828000479 / 562949953421312
    \<and> (1089244828000479 / 562949953421312 :: real) < 1.9348875000000004"
proof -
  have final: "f64_le (f64_mul (Finite (current_price pd)) (bounded_multiplier_f64 pd))
      (f64_mul (Finite (current_price pd)) (Finite (1089244828000479 / 562949953421312)))"
    using assms bounded_multiplier_f64_at_most by (rule f64_mul_mono)
  have floor: "f64_le (f64_mul (Finite (current_price pd)) (lit 0.05))
      (f64_mul (Finite (current_price pd)) (Finite (1089244828000479 / 562949953421312)))"
    using assms lit_005_at_most by (rule f64_mul_mono)
  have "f64_le (calculate_rule_based_price_f64 pd)
      (f64_mul (Finite (current_price pd)) (Finite (1089244828000479 / 562949953421312)))"
    unfolding calculate_rule_based_price_f64_def Let_def
    using final floor by (rule f64_le_max)
  then show ?thesis by (simp add: largest_multiplier_f64_value)
qed

subsection \<open>The scarce seafood snapshot in doubles\<close>

lemma not_less_lit: "0 \<le> x \<Longrightarrow> x \<le> 1 \<Longrightarrow> 1 \<le> a \<Longrightarrow> \<not> f64_less (Finite a) (lit x)"
  using at_most_lit [of x 1]
  by (auto simp: round_1 at_most_def split: double.splits)

lemma peak_premium_staged: "staged_multiplier_f64 peak_premium = largest_multiplier_f64"
proof -
  have e: "expiry_stage_f64 (days_to_expiry peak_premium) = lit 1.05"
    by (simp add: expiry_stage_f64_def peak_premium_def expiry_stage_def)
  have d: "demand_stage_f64 (Finite (demand_score peak_premium)) = lit 1.25"
    by (simp add: demand_stage_f64_def peak_premium_def not_less_lit)
  have s: "stock_stage_f64 (stock_level peak_premium) = lit 1.30"
    by (simp add: stock_stage_f64_def peak_premium_def stock_stage_def)
  have v: "sales_velocity_update_f64 (historical_sales peak_premium) m = f64_mul m (lit 1.05)"
    for m by (simp add: sales_velocity_update_f64_def peak_premium_def)
  have c: "category_multiplier_f64 (category peak_premium) = lit 1.08"
    by (simp add: category_multiplier_f64_def peak_premium_def category_multiplier_seafood)
  show ?thesis
    by (simp only: staged_multiplier_f64_def largest_multiplier_f64_def Let_def e d s v c)
qed

lemma peak_premium_bounded: "bounded_multiplier_f64 peak_premium = Finite (1089244828000479 / 562949953421312)"
proof -
  have days: "days_to_expiry peak_premium > 0" by (simp add: peak_premium_def)
  have demand: "f64_less (lit 0.5) (Finite (demand_score peak_premium))"
    by (simp only: lit_half) (simp add: peak_premium_def)
  have floor: "f64_max (Finite (1089244828000479 / 562949953421312)) (lit 0.70) = Finite (1089244828000479 / 562949953421312)"
    by (simp add: f64_max_def not_less_lit)
  have stock: "\<not> stock_level peak_premium > 5" by (simp add: peak_premium_def)
  show ?thesis
    by (simp only: bounded_multiplier_f64_def Let_def peak_premium_staged
        largest_multiplier_f64_value days demand floor stock simp_thms if_True if_False)
qed

lemma peak_premium_price:
  "calculate_rule_based_price_f64 peak_premium = Finite (5446224140002395 / 140737488355328)"
proof -
  have price: "current_price peak_premium = 20" by (simp add: peak_premium_def)
  have "f64_mul (Finite 20) (Finite (1089244828000479 / 562949953421312)) = Finite (round_nonneg (20 * (1089244828000479 / 562949953421312)))"
    by (rule f64_mul_small) simp_all
  then have final: "f64_mul (Finite 20) (Finite (1089244828000479 / 562949953421312)) = Finite (5446224140002395 / 140737488355328)"
    by (simp only: product_price)
  have "f64_mul (Finite 20) (Finite (3602879701896397 / 72057594037927936)) = Finite (round_nonneg (20 * (3602879701896397 / 72057594037927936)))"
    by (rule f64_mul_small) simp_all
  then have least: "f64_mul (Finite 20) (lit 0.05) = Finite 1"
    by (simp only: product_floor lit_005)
  have "f64_max (Finite (5446224140002395 / 140737488355328)) (Finite 1) = Finite (5446224140002395 / 140737488355328)"
    by (simp add: f64_max_def)
  then show ?thesis
    by (simp only: calculate_rule_based_price_f64_def Let_def peak_premium_bounded
        price final least)
qed

lemma peak_premium_claimed:
  "f64_mul (lit 1.9348875) (Finite (current_price peak_premium)) = Finite (2723112070001197 / 70368744177664)"
proof -
  have price: "current_price peak_premium = 20" by (simp add: peak_premium_def)
  have "f64_mul (Finite (8713958624003831 / 4503599627370496)) (Finite 20) = Finite (round_nonneg (8713958624003831 / 4503599627370496 * 20))"
    by (rule f64_mul_small) simp_all
  then show ?thesis
    by (simp only: product_claimed lit_19348875 price)
qed

text \<open>
  The scarce, very fresh seafood snapshot at 20.00 with demand 1: the code returns
  38.697750000000006, which is above 1.9348875 times the current price, whether that
  product is taken exactly or in doubles (38.69775).
\<close>

theorem calculate_rule_based_price_f64_exceeds:
  "calculate_rule_based_price_f64 peak_premium = Finite (5446224140002395 / 140737488355328)
   \<and> f64_mul (lit 1.9348875) (Finite (current_price peak_premium)) = Finite (2723112070001197 / 70368744177664)
   \<and> f64_less (f64_mul (lit 1.9348875) (Finite (current_price peak_premium)))
        (calculate_rule_based_price_f64 peak_premium)
   \<and> 1.9348875 * current_price peak_premium < 5446224140002395 / 140737488355328"
proof -
  have "f64_less (Finite (2723112070001197 / 70368744177664)) (Finite (5446224140002395 / 140737488355328))" by simp
  then have "f64_less (f64_mul (lit 1.9348875) (Finite (current_price peak_premium)))
        (calculate_rule_based_price_f64 peak_premium)"
    by (simp only: peak_premium_claimed peak_premium_price)
  moreover have "1.9348875 * current_price peak_premium < 5446224140002395 / 140737488355328"
    by (simp add: peak_premium_def)
  ultimately show ?thesis
    using peak_premium_price peak_premium_claimed by blast
qed

text \<open>The snapshot above attains the bound.\<close>

theorem calculate_rule_based_price_f64_upper_witness:
  "0 < current_price peak_premium
   \<and> f64_le (calculate_rule_based_price_f64 peak_premium)
        (f64_mul (Finite (current_price peak_premium)) largest_multiplier_f64)
   \<and> calculate_rule_based_price_f64 peak_premium
        = f64_mul (Finite (current_price peak_premium)) largest_multiplier_f64"
proof -
  have h: "0 < current_price peak_premium" by (simp add: peak_premium_def)
  have price: "current_price peak_premium = 20" by (simp add: peak_premium_def)
  have "f64_mul (Finite 20) (Finite (1089244828000479 / 562949953421312)) = Finite (round_nonneg (20 * (1089244828000479 / 562949953421312)))"
    by (rule f64_mul_small) simp_all
  then have "f64_mul (Finite (current_price peak_premium)) largest_multiplier_f64 = Finite (5446224140002395 / 140737488355328)"
    by (simp only: product_price price largest_multiplier_f64_value)
  then have "calculate_rule_based_price_f64 peak_premium
        = f64_mul (Finite (current_price peak_premium)) largest_multiplier_f64"
    by (simp only: peak_premium_price)
  with h calculate_rule_based_price_f64_upper [OF h] show ?thesis by blast
qed

subsection \<open>The sales-velocity chain\<close>

text \<open>
  C4: a snapshot with historical sales of 150 should take the branch \<open>> 100\<close> and
  contribute the factor 1.10. The code tests \<open>> 50\<close> first, so the stage contributes
  1.05 there: the branches \<open>> 100\<close> and \<open>> 200\<close> are never reached.
\<close>

theorem sales_velocity_stage_150:
  "sales_velocity_stage 150 = 1.05 \<and> sales_velocity_stage 150 \<noteq> 1.10"
  by (simp add: sales_velocity_stage_def)

subsection \<open>The scenario without a model\<close>

text \<open>
  C3, as amended: for the scenario snapshot and no model loaded, \<open>predict_price\<close>
  returns the method \<open>rule_based\<close> and the price 0.51. The stage factors are 0.05 for
  expiry, 1.00 for demand (0.5 is not below 0.5), 1.08 for stock (50 is not above 50),
  0.92 for sales (10 is below 20) and 1.02 for the category; the price 0.506736 is above
  the floor 0.50 and rounds to 0.51.
\<close>

theorem predict_price_scenario_no_model:
  "predict_price \<lparr>model = None, preprocessor = p\<rparr> now scenario =
     Inr \<lparr>recommended_price = 0.51, confidence = Some 0.6,
          factors = Some [''rule_based_fallback''],
          method_used = ''rule_based'', timestamp = now\<rparr>
   \<and> expiry_stage (days_to_expiry scenario) = 0.05
   \<and> demand_stage (demand_score scenario) = 1.00
   \<and> stock_stage (stock_level scenario) = 1.08
   \<and> sales_velocity_stage (historical_sales scenario) = 0.92
   \<and> category_multiplier (category scenario) = 1.02
   \<and> calculate_rule_based_price scenario = 0.506736"
proof -
  have response: "predict_price \<lparr>model = None, preprocessor = p\<rparr> now scenario =
     Inr \<lparr>recommended_price = 0.51, confidence = Some 0.6,
          factors = Some [''rule_based_fallback''],
          method_used = ''rule_based'', timestamp = now\<rparr>"
    by (simp add: predict_price_def predict_price_try_def rule_based_response_def
        scenario_rounded Let_def)
  have stages: "expiry_stage (days_to_expiry scenario) = 0.05
     \<and> demand_stage (demand_score scenario) = 1.00
     \<and> stock_stage (stock_level scenario) = 1.08
     \<and> sales_velocity_stage (historical_sales scenario) = 0.92
     \<and> category_multiplier (category scenario) = 1.02"
    by (simp add: scenario_def expiry_stage_def demand_stage_def stock_stage_def
        sales_velocity_stage_def category_multiplier_dairy)
  from response stages scenario_price show ?thesis by blast
qed

text \<open>
  The price 0.50 and the stage factors 0.95, 1.00 and "unchanged" that the scenario is
  stated with are not the ones the code computes.
\<close>

theorem predict_price_scenario_not_half:
  "predict_price no_model_service ''2024-01-01T00:00:00'' scenario =
     Inr (rule_based_response ''2024-01-01T00:00:00'' scenario)
   \<and> method_used (rule_based_response ''2024-01-01T00:00:00'' scenario) = ''rule_based''
   \<and> recommended_price (rule_based_response ''2024-01-01T00:00:00'' scenario) \<noteq> 0.50
   \<and> demand_stage (demand_score scenario) \<noteq> 0.95
   \<and> stock_stage (stock_level scenario) \<noteq> 1.00
   \<and> sales_velocity_stage (historical_sales scenario) \<noteq> 1"
  by (simp add: predict_price_def predict_price_try_def no_model_service_def
      rule_based_response_def scenario_rounded Let_def)
     (simp add: scenario_def demand_stage_def stock_stage_def sales_velocity_stage_def)

subsection \<open>Failures in the model path\<close>

text \<open>
  C2: when a model is loaded, preprocessing succeeds and the inference call raises,
  \<open>predict_price\<close> returns a response (it raises nothing) with the method
  \<open>rule_based_fallback\<close>, confidence 0.5, the single factor \<open>error_fallback\<close> and
  the calculator's price rounded to 2 decimals.
\<close>

theorem predict_price_inference_error:
  assumes "model st = Some m" and "preprocess_data st pd = Inr x" and "m x = Inl msg"
  shows "predict_price st now pd =
     Inr \<lparr>recommended_price = py_round (calculate_rule_based_price pd) 2,
          confidence = Some 0.5, factors = Some [''error_fallback''],
          method_used = ''rule_based_fallback'', timestamp = now\<rparr>"
  using assms
  by (simp add: predict_price_def predict_price_try_def error_fallback_response_def Let_def)

theorem predict_price_inference_error_witness:
  "model failing_model_service = Some (\<lambda>x. Inl ''inference failed'')
   \<and> preprocess_data failing_model_service scenario = Inr (manual_preprocessing [scenario])
   \<and> predict_price failing_model_service ''2024-01-01T00:00:00'' scenario =
     Inr \<lparr>recommended_price = 0.51,
          confidence = Some 0.5, factors = Some [''error_fallback''],
          method_used = ''rule_based_fallback'', timestamp = ''2024-01-01T00:00:00''\<rparr>"
proof -
  have h1: "model failing_model_service = Some (\<lambda>x. Inl ''inference failed'')"
    by (simp add: failing_model_service_def)
  have h2: "preprocess_data failing_model_service scenario
      = Inr (manual_preprocessing [scenario])"
    by (simp add: preprocess_data_def failing_model_service_def scenario_def
        lower_dairy lower_monday Let_def)
  show ?thesis
    using h1 h2
      predict_price_inference_error [where st = failing_model_service
        and m = "\<lambda>x. Inl ''inference failed''" and pd = scenario
        and x = "manual_preprocessing [scenario]" and msg = "''inference failed''"
        and now = "''2024-01-01T00:00:00''"]
    by (simp add: scenario_rounded)
qed

text \<open>
  C7, as amended: when a model is loaded and the preprocessor's transform raises,
  \<open>preprocess_data\<close> raises the 400 error "Data preprocessing error" with the cause to
  \<open>predict_price\<close>, whose handler catches it: \<open>predict_price\<close> returns the
  \<open>rule_based_fallback\<close> response with confidence 0.5 and the factor
  \<open>error_fallback\<close>, and no error reaches the caller.
\<close>

theorem predict_price_preprocessing_error:
  assumes "model st = Some m" and "preprocessor st = Some transform"
    and "transform [pd\<lparr>category := lower (category pd),
                        day_of_week := lower (day_of_week pd)\<rparr>] = Inl cause"
  shows "preprocess_data st pd = Inl (HTTPException 400 (''Data preprocessing error: '' @ cause))
    \<and> predict_price st now pd =
        Inr \<lparr>recommended_price = py_round (calculate_rule_based_price pd) 2,
             confidence = Some 0.5, factors = Some [''error_fallback''],
             method_used = ''rule_based_fallback'', timestamp = now\<rparr>"
  using assms
  by (simp add: predict_price_def predict_price_try_def preprocess_data_def
      error_fallback_response_def Let_def)

theorem predict_price_preprocessing_error_witness:
  "model failing_preprocessor_service = Some (\<lambda>x. Inr [8.0])
   \<and> preprocessor failing_preprocessor_service = Some (\<lambda>data. Inl ''bad input'')
   \<and> preprocess_data failing_preprocessor_service scenario =
       Inl (HTTPException 400 ''Data preprocessing error: bad input'')
   \<and> predict_price failing_preprocessor_service ''12:00'' scenario =
        Inr \<lparr>recommended_price = py_round (calculate_rule_based_price scenario) 2,
             confidence = Some 0.5, factors = Some [''error_fallback''],
             method_used = ''rule_based_fallback'', timestamp = ''12:00''\<rparr>"
  using predict_price_preprocessing_error [where st = failing_preprocessor_service
      and m = "\<lambda>x. Inr [8.0]" and transform = "\<lambda>data. Inl ''bad input''"
      and pd = scenario and cause = "''bad input''" and now = "''12:00''"]
  by (simp add: failing_preprocessor_service_def)

text \<open>
  With a preprocessor that raises, \<open>predict_price\<close> answers a fallback prediction, not
  the 400 error.
\<close>

theorem predict_price_preprocessing_error_not_surfaced:
  "preprocess_data failing_preprocessor_service scenario =
     Inl (HTTPException 400 ''Data preprocessing error: bad input'')
   \<and> predict_price failing_preprocessor_service ''2024-01-01T00:00:00'' scenario =
     Inr \<lparr>recommended_price = 0.51,
          confidence = Some 0.5, factors = Some [''error_fallback''],
          method_used = ''rule_based_fallback'', timestamp = ''2024-01-01T00:00:00''\<rparr>
   \<and> predict_price failing_preprocessor_service ''2024-01-01T00:00:00'' scenario \<noteq>
     Inl (HTTPException 400 ''Data preprocessing error: bad input'')"
  by (simp add: predict_price_def predict_price_try_def preprocess_data_def
      failing_preprocessor_service_def error_fallback_response_def scenario_rounded Let_def)

subsection \<open>The stock tags of the factor explainer\<close>

lemma stock_factors_not_both:
  "\<not> (''low_stock'' \<in> set (stock_factors pd) \<and> ''critical_stock'' \<in> set (stock_factors pd))"
  by (simp add: stock_factors_def)

lemma stock_tags_elsewhere:
  "''low_stock'' \<notin> set (expiry_factors pd)" "''critical_stock'' \<notin> set (expiry_factors pd)"
  "''low_stock'' \<notin> set (demand_factors pd)" "''critical_stock'' \<notin> set (demand_factors pd)"
  "''low_stock'' \<notin> set (sales_factors pd)" "''critical_stock'' \<notin> set (sales_factors pd)"
  "''low_stock'' \<notin> set (combined_factors pd)" "''critical_stock'' \<notin> set (combined_factors pd)"
  by (simp_all add: expiry_factors_def demand_factors_def sales_factors_def combined_factors_def)

lemma explain_factors_not_both:
  "\<not> (''low_stock'' \<in> set (explain_factors pd) \<and> ''critical_stock'' \<in> set (explain_factors pd))"
  using stock_factors_not_both [of pd]
  by (simp add: explain_factors_def stock_tags_elsewhere)

lemma predict_price_factors:
  "predict_price st now pd = Inr r \<Longrightarrow> factors r = Some fs \<Longrightarrow>
     fs = [''rule_based_fallback''] \<or> fs = [''error_fallback''] \<or> fs = explain_factors pd"
  by (auto simp: predict_price_def predict_price_try_def rule_based_response_def
      error_fallback_response_def ml_model_response_def Let_def
      split: option.splits sum.splits list.splits)

text \<open>
  C8, as amended: the stock block is one if/elif chain, so it appends at most one tag,
  and the factor list of a model-based prediction never holds both \<open>low_stock\<close> and
  \<open>critical_stock\<close>.
\<close>

theorem stock_factors_exclusive:
  "length (stock_factors pd) \<le> 1
   \<and> factors (ml_model_response now pd prediction) = Some (explain_factors pd)
   \<and> \<not> (''low_stock'' \<in> set (explain_factors pd)
         \<and> ''critical_stock'' \<in> set (explain_factors pd))"
  using explain_factors_not_both [of pd]
  by (simp add: stock_factors_def ml_model_response_def Let_def)

text \<open>No service, clock reading and snapshot give a response whose factors hold both tags.\<close>

theorem no_low_and_critical_stock:
  "\<not> (\<exists>st now pd r fs. predict_price st now pd = Inr r \<and> factors r = Some fs
        \<and> ''low_stock'' \<in> set fs \<and> ''critical_stock'' \<in> set fs)"
proof
  assume "\<exists>st now pd r fs. predict_price st now pd = Inr r \<and> factors r = Some fs
        \<and> ''low_stock'' \<in> set fs \<and> ''critical_stock'' \<in> set fs"
  then obtain st now pd r fs
    where p: "predict_price st now pd = Inr r" "factors r = Some fs"
      and both: "''low_stock'' \<in> set fs" "''critical_stock'' \<in> set fs"
    by blast
  from predict_price_factors [OF p] both explain_factors_not_both [of pd]
  show False by auto
qed

subsection \<open>The batch orchestrator\<close>

lemma batch_loop_eq:
  "batch_loop st clock t products acc =
     (acc @ map (\<lambda>(i, pd). batch_item st (clock i) pd) (List.enumerate t products),
      t + length products)"
  by (induction products arbitrary: t acc) simp_all

lemma predict_price_returns: "predict_price st now pd = Inr (batch_item st now pd)"
  by (simp add: predict_price_def batch_item_def split: sum.splits)

text \<open>
  C9: for every sequence of snapshots \<open>batch_predict\<close> returns a response, without an
  error; its predictions are, in the order of the input, the responses of
  \<open>predict_price\<close> for each snapshot, so there are as many as snapshots, and
  \<open>total_processed\<close> is that number. For the empty sequence the predictions are
  empty and \<open>total_processed\<close> is 0.
\<close>

theorem batch_predict_length_order:
  "batch_predict st clock products =
     Inr \<lparr>predictions =
            map (\<lambda>(i, pd). batch_item st (clock i) pd) (List.enumerate 0 products),
          total_processed = int (length products),
          batch_timestamp = clock (length products)\<rparr>
   \<and> length (map (\<lambda>(i, pd). batch_item st (clock i) pd) (List.enumerate 0 products))
       = length products
   \<and> predict_price st now pd = Inr (batch_item st now pd)
   \<and> batch_predict st clock [] =
       Inr \<lparr>predictions = [], total_processed = 0, batch_timestamp = clock 0\<rparr>"
  by (simp add: batch_predict_def batch_loop_eq predict_price_returns)

subsection \<open>The synthetic label generator\<close>

lemma calculate_target_price_unbound:
  "calculate_target_price g original_price expiry stock demand cat sales dow
     = Inl (UnboundLocalError ''price'')"
  by (simp add: calculate_target_price_def historical_sales_influence_def
      price_times_uniform_def category_adjustment_def load_price_def Let_def
      split: prod.splits)

text \<open>
  C5: \<open>calculate_target_price\<close> should return a price for every input. It raises
  \<open>UnboundLocalError\<close> instead, here for a dairy product at 10.00 with 5 days to
  expiry, a stock of 50, demand 0.5 and 50 sales on a Monday: the first statement on
  \<open>price\<close> reads it before any assignment.
\<close>

theorem calculate_target_price_raises:
  "calculate_target_price (\<lambda>n. 1 / 2, 0) 10 5 50 0.5 ''dairy'' 50 ''monday''
     = Inl (UnboundLocalError ''price'')"
  by (rule calculate_target_price_unbound)

end
